theory Spec2Isabelle
  imports Complex_Main "HOL-Library.AList" "HOL-Library.Multiset"
begin

section \<open>Python values of the conversion notebook\<close>

text \<open>
  The conversion notebook (\<open>optimize_criteo\<close>) puts plain Python values into a Dask task
  dictionary: strings, ints, floats, tuples, lists, dicts, the filesystem object, the
  type object \<open>np.int64\<close> and the two task functions. A float is modelled by the
  rational it denotes; the notebook only passes floats on to libraries and multiplies one
  of them once. The filesystem object is opaque, of type \<open>'fs\<close>.
\<close>

datatype func = F_convert_file | F_write_metadata

datatype 'fs pyval =
    Str string
  | Intg int
  | Float rat
  | Np_int64
  | Fs 'fs
  | Func func
  | Tuple "'fs pyval list"
  | Lst "'fs pyval list"
  | Dct "(string \<times> 'fs pyval) list"

text \<open>Python truthiness of \<open>max_day\<close>, which is \<open>None\<close> or an int.\<close>

fun truthy :: "int option \<Rightarrow> bool" where
  "truthy None = False"
| "truthy (Some k) = (k \<noteq> 0)"

text \<open>\<open>sep.join(parts)\<close>.\<close>

fun join :: "string \<Rightarrow> string list \<Rightarrow> string" where
  "join s [] = []"
| "join s [x] = x"
| "join s (x # y # ys) = x @ s @ join s (y # ys)"

text \<open>\<open>x.endswith(s)\<close>.\<close>

definition endswith :: "string \<Rightarrow> string \<Rightarrow> bool" where
  "endswith x s = (length s \<le> length x \<and> drop (length x - length s) x = s)"

text \<open>\<open>xs[:k]\<close> for an int \<open>k\<close>: a negative \<open>k\<close> counts from the end.\<close>

definition slice_to :: "'a list \<Rightarrow> int \<Rightarrow> 'a list" where
  "slice_to xs k = (if 0 \<le> k then take (nat k) xs else take (nat (int (length xs) + k)) xs)"

text \<open>\<open>str(n)\<close> for a non-negative int.\<close>

definition digit :: "nat \<Rightarrow> char" where
  "digit d = char_of (48 + d)"

fun str :: "nat \<Rightarrow> string" where
  "str n = (if n < 10 then [digit n] else str (n div 10) @ [digit (n mod 10)])"

text \<open>\<open>s.split(c)\<close> for a one-character separator: never empty, one more entry than
  there are separators.\<close>

fun split :: "char \<Rightarrow> string \<Rightarrow> string list" where
  "split c [] = [[]]"
| "split c (x # xs) =
     (if x = c then [] # split c xs
      else (case split c xs of [] \<Rightarrow> [[x]] | p # ps \<Rightarrow> (x # p) # ps))"

section \<open>The libraries the notebook calls\<close>

text \<open>
  The library functions that Step 5 calls are the fields of this record, so the cell is
  verified for any behaviour of the libraries. The GPU dataframe functions that the task
  functions call are the fields of a second record below, and \<open>device_mem_size\<close> is
  passed as a function. The filesystem object is taken not to be callable.
\<close>

record ('fs, 'k) library =
  get_fs_token_paths :: "string \<Rightarrow> 'fs"
  fs_sep :: "'fs \<Rightarrow> string"
  fs_glob :: "'fs \<Rightarrow> string \<Rightarrow> string list"
  natural_sort_key :: "string \<Rightarrow> 'k"
  analyze_paths :: "string list \<Rightarrow> 'fs \<Rightarrow> string \<times> string list"
  tokenize :: "'fs pyval list \<Rightarrow> string"

section \<open>Step 2: options\<close>

record options =
  INPUT_PATH :: string
  OUTPUT_PATH :: string
  CUDA_VISIBLE_DEVICES :: string
  frac_size :: rat
  allow_multi_gpu :: bool
  use_rmm_pool :: bool
  max_day :: "int option"

definition n_workers :: "options \<Rightarrow> nat" where
  "n_workers opts = length (split CHR '','' (CUDA_VISIBLE_DEVICES opts))"

section \<open>Step 5: the task graph\<close>

type_synonym 'fs dsk = "('fs pyval \<times> 'fs pyval) list"

record 'fs highlevelgraph =
  layers :: "(string \<times> 'fs dsk) list"
  dependencies :: "(string \<times> string list) list"

record 'fs delayed =
  key :: "'fs pyval"
  dask :: "'fs highlevelgraph"

text \<open>\<open>HighLevelGraph.from_collections(name, layer, dependencies=[])\<close>: with no
  collection to depend on, the graph is the one layer, which depends on no layer.\<close>

definition from_collections :: "string \<Rightarrow> 'fs dsk \<Rightarrow> 'fs highlevelgraph" where
  "from_collections name layer = \<lparr>layers = [(name, layer)], dependencies = [(name, [])]\<rparr>"

definition file_list_of :: "('fs, 'k::linorder) library \<Rightarrow> options \<Rightarrow> string list" where
  "file_list_of L opts =
     (let fs = get_fs_token_paths L (INPUT_PATH opts);
          file_list = [x \<leftarrow> fs_glob L fs (join (fs_sep L fs) [INPUT_PATH opts, ''day_*'']).
                         \<not> endswith x ''parquet''];
          file_list = sort_key (natural_sort_key L) file_list
      in if truthy (max_day opts) then slice_to file_list (the (max_day opts)) else file_list)"

definition cont_names :: "string list" where
  "cont_names = map (\<lambda>x. ''I'' @ str x) [1..<14]"

definition cat_names :: "string list" where
  "cat_names = map (\<lambda>x. ''C'' @ str x) [1..<27]"

definition cols :: "string list" where
  "cols = [''label''] @ cont_names @ cat_names"

definition dtypes :: "(string \<times> 'fs pyval) list" where
  "dtypes =
     (let d = [];
          d = AList.update ''label'' Np_int64 d;
          d = fold (\<lambda>x. AList.update x Np_int64) cont_names d;
          d = fold (\<lambda>x. AList.update x (Str ''hex'')) cat_names d
      in d)"

text \<open>The loop over \<open>enumerate(zip(file_list, name_list))\<close>: \<open>dsk[key] = ...\<close> replaces
  the value of a key that is present and appends a new key otherwise.\<close>

fun convert_tasks ::
  "string \<Rightarrow> string \<Rightarrow> rat \<Rightarrow> 'fs \<Rightarrow> nat \<Rightarrow> (string \<times> string) list \<Rightarrow> 'fs dsk \<Rightarrow> 'fs dsk" where
  "convert_tasks convert_file_name out fr fs i [] dsk = dsk"
| "convert_tasks convert_file_name out fr fs i ((path, name) # rest) dsk =
     convert_tasks convert_file_name out fr fs (Suc i) rest
       (AList.update (Tuple [Str convert_file_name, Intg (int i)])
          (Tuple [Func F_convert_file, Str path, Str name, Str out, Float fr, Fs fs,
                  Lst (map Str cols), Dct dtypes]) dsk)"

record 'fs step5 =
  fs_of :: 'fs
  file_list :: "string list"
  name_list :: "string list"
  token :: string
  convert_file_name :: string
  write_meta_name :: string
  dsk :: "'fs dsk"
  graph :: "'fs highlevelgraph"
  conversion_delayed :: "'fs delayed"

definition build_graph ::
  "('fs pyval list \<Rightarrow> string) \<Rightarrow> string list \<Rightarrow> string list \<Rightarrow> string \<Rightarrow> rat \<Rightarrow> 'fs \<Rightarrow> 'fs step5" where
  "build_graph tok fl nl out fr fs =
     (let dsk0 = [];
          token = tok [Lst (map Str fl), Lst (map Str nl), Str out, Float fr, Fs fs,
                       Lst (map Str cols), Dct dtypes];
          convert_file_name = ''convert_file-'' @ token;
          dsk1 = convert_tasks convert_file_name out fr fs 0 (zip fl nl) dsk0;
          write_meta_name = ''write-metadata-'' @ token;
          dsk2 = AList.update (Str write_meta_name)
                   (Tuple [Func F_write_metadata,
                           Lst (map (\<lambda>i. Tuple [Str convert_file_name, Intg (int i)])
                                  [0..<length fl]),
                           Fs fs, Str out]) dsk1;
          graph = from_collections write_meta_name dsk2
      in \<lparr>fs_of = fs, file_list = fl, name_list = nl, token = token,
          convert_file_name = convert_file_name, write_meta_name = write_meta_name,
          dsk = dsk2, graph = graph,
          conversion_delayed = \<lparr>key = Str write_meta_name, dask = graph\<rparr>\<rparr>)"

definition step5 :: "('fs, 'k::linorder) library \<Rightarrow> options \<Rightarrow> 'fs step5" where
  "step5 L opts =
     (let fs = get_fs_token_paths L (INPUT_PATH opts);
          fl = file_list_of L opts;
          nl = snd (analyze_paths L fl fs)
      in build_graph (tokenize L) fl nl (OUTPUT_PATH opts) (frac_size opts) fs)"


section \<open>Dask's reading of the task dictionary\<close>

text \<open>
  The scheduler is a library. What it takes as the dependencies of a task is fixed by
  \<open>dask.core.get_dependencies\<close> and \<open>keys_in_tasks\<close>: the arguments of a task (a
  tuple whose first entry is callable), the entries of a list and the values of a dict are
  searched; anything else is a dependency exactly when it is a key of the dictionary.
  An unhashable value (a list or a dict) is never a key. Python compares an int and a float
  of the same value as equal; the notebook's graph holds no number that is a key, and the
  model compares values structurally.
\<close>

fun callable :: "'fs pyval \<Rightarrow> bool" where
  "callable (Func f) = True"
| "callable Np_int64 = True"
| "callable v = False"

fun keys_in_tasks :: "'fs pyval list \<Rightarrow> 'fs pyval \<Rightarrow> 'fs pyval list" where
  "keys_in_tasks keys (Tuple []) = (if Tuple [] \<in> set keys then [Tuple []] else [])"
| "keys_in_tasks keys (Tuple (f # args)) =
     (if callable f then concat (map (keys_in_tasks keys) args)
      else if Tuple (f # args) \<in> set keys then [Tuple (f # args)] else [])"
| "keys_in_tasks keys (Lst ws) = concat (map (keys_in_tasks keys) ws)"
| "keys_in_tasks keys (Dct kvs) = concat (map (\<lambda>kv. keys_in_tasks keys (snd kv)) kvs)"
| "keys_in_tasks keys w = (if w \<in> set keys then [w] else [])"

definition get_dependencies :: "'fs dsk \<Rightarrow> 'fs pyval \<Rightarrow> 'fs pyval list" where
  "get_dependencies d k =
     (case map_of d k of None \<Rightarrow> [] | Some task \<Rightarrow> keys_in_tasks (map fst d) task)"

text \<open>A chain of tasks, each depending on the next one.\<close>

fun dep_chain :: "'fs dsk \<Rightarrow> 'fs pyval list \<Rightarrow> bool" where
  "dep_chain d [] = True"
| "dep_chain d [k] = (k \<in> set (map fst d))"
| "dep_chain d (k # k' # ks) = (k' \<in> set (get_dependencies d k) \<and> dep_chain d (k' # ks))"

text \<open>A sink is a task on which no task of the dictionary depends.\<close>

definition is_sink :: "'fs dsk \<Rightarrow> 'fs pyval \<Rightarrow> bool" where
  "is_sink d k = (k \<in> set (map fst d) \<and> list_all (\<lambda>k'. k \<notin> set (get_dependencies d k')) (map fst d))"

section \<open>Step 3: helper and task functions\<close>

text \<open>The leading underscore of \<open>_pool\<close>, \<open>_convert_file\<close> and \<open>_write_metadata\<close> is
  dropped: it is not part of an identifier here.\<close>

datatype rmm_call = Rmm_reinitialize bool "rat option"

text \<open>\<open>device_mem_size\<close> is a library function; its argument is the \<open>kind\<close> it was
  called with, if any.\<close>

definition pool :: "(string option \<Rightarrow> nat) \<Rightarrow> rat \<Rightarrow> rmm_call" where
  "pool device_mem_size fr =
     Rmm_reinitialize True (Some (fr * of_nat (device_mem_size None)))"

definition pool_default_frac :: rat where
  "pool_default_frac = 8 / 10"

record 'gdf parquet_writer =
  w_path :: string
  w_compression :: "string option"
  w_tables :: "'gdf list"
  w_closed :: bool
  w_metadata_file_path :: "string option"

definition ParquetWriter :: "string \<Rightarrow> string option \<Rightarrow> 'gdf parquet_writer" where
  "ParquetWriter path compression =
     \<lparr>w_path = path, w_compression = compression, w_tables = [], w_closed = False,
      w_metadata_file_path = None\<rparr>"

definition write_table :: "'gdf parquet_writer \<Rightarrow> 'gdf \<Rightarrow> 'gdf parquet_writer" where
  "write_table w gdf = w\<lparr>w_tables := w_tables w @ [gdf]\<rparr>"

record 'fs reader_args =
  r_path :: string
  r_engine :: string
  r_fs :: 'fs
  r_names :: "string list"
  r_gpu_memory_frac :: rat
  r_sep :: string
  r_dtypes :: "(string \<times> 'fs pyval) list"

text \<open>The GPU dataframe libraries: the chunks the file iterator yields, the metadata a
  writer returns when it is closed, and the merge of several files' metadata.\<close>

record ('fs, 'gdf, 'md) gpu_library =
  GPUFileIterator :: "'fs reader_args \<Rightarrow> 'gdf list"
  close_metadata :: "'gdf parquet_writer \<Rightarrow> 'md"
  merge_parquet_filemetadata :: "'md list \<Rightarrow> 'md"

definition writer_close ::
  "('fs, 'gdf, 'md) gpu_library \<Rightarrow> 'gdf parquet_writer \<Rightarrow> string \<Rightarrow> 'md \<times> 'gdf parquet_writer" where
  "writer_close G w metadata_file_path =
     (let w' = w\<lparr>w_closed := True, w_metadata_file_path := Some metadata_file_path\<rparr>
      in (close_metadata G w', w'))"

definition convert_file ::
  "('fs, 'gdf, 'md) gpu_library \<Rightarrow> ('fs \<Rightarrow> string) \<Rightarrow> string \<Rightarrow> string \<Rightarrow> string \<Rightarrow> rat \<Rightarrow> 'fs \<Rightarrow>
     string list \<Rightarrow> (string \<times> 'fs pyval) list \<Rightarrow> 'md \<times> 'gdf parquet_writer" where
  "convert_file G sep path name out_dir fr fs cs dts =
     (let fn = name @ ''.parquet'';
          out_path = join (sep fs) [out_dir, name @ ''.parquet''];
          writer = ParquetWriter out_path None;
          writer = fold (\<lambda>gdf w. write_table w gdf)
                     (GPUFileIterator G
                        \<lparr>r_path = path, r_engine = ''csv'', r_fs = fs, r_names = cs,
                         r_gpu_memory_frac = fr, r_sep = [CHR 0x09], r_dtypes = dts\<rparr>)
                     writer
      in writer_close G writer fn)"

text \<open>The filesystem \<open>_write_metadata\<close> writes to: the content of each file, as the
  values written to it since it was opened for writing, and the log of the library calls.\<close>

datatype 'md io_event =
    Merge_call "'md list"
  | Open_call string string
  | Tofile_call string 'md

record 'md world =
  files :: "string \<Rightarrow> 'md list option"
  log :: "'md io_event list"

definition fs_open :: "string \<Rightarrow> string \<Rightarrow> 'md world \<Rightarrow> 'md world" where
  "fs_open path mode w =
     w\<lparr>files := (if mode = ''wb'' then (files w)(path \<mapsto> []) else files w),
       log := log w @ [Open_call path mode]\<rparr>"

definition tofile :: "'md \<Rightarrow> string \<Rightarrow> 'md world \<Rightarrow> 'md world" where
  "tofile meta path w =
     w\<lparr>files := (files w)(path \<mapsto> (case files w path of None \<Rightarrow> [] | Some c \<Rightarrow> c) @ [meta]),
       log := log w @ [Tofile_call path meta]\<rparr>"

definition merge_call :: "('fs, 'gdf, 'md) gpu_library \<Rightarrow> 'md list \<Rightarrow> 'md world \<Rightarrow> 'md \<times> 'md world" where
  "merge_call G md_list w =
     (merge_parquet_filemetadata G md_list, w\<lparr>log := log w @ [Merge_call md_list]\<rparr>)"

definition write_metadata ::
  "('fs, 'gdf, 'md) gpu_library \<Rightarrow> ('fs \<Rightarrow> string) \<Rightarrow> 'md list \<Rightarrow> 'fs \<Rightarrow> string \<Rightarrow> 'md world \<Rightarrow>
     bool \<times> 'md world" where
  "write_metadata G sep md_list fs path w =
     (if md_list \<noteq> [] then
        (let metadata_path = join (sep fs) [path, ''_metadata''];
             (meta, w) = (if length md_list > 1 then merge_call G md_list w
                          else (md_list ! 0, w));
             w = fs_open metadata_path ''wb'' w;
             w = tofile meta metadata_path w
         in (True, w))
      else (True, w))"

section \<open>Step 4: the cluster\<close>

datatype cluster = LocalCUDACluster nat string

datatype client = Client cluster

datatype pool_event = Local rmm_call | On_worker nat rmm_call

text \<open>\<open>client.run(f)\<close> runs \<open>f\<close> on every worker of the client's cluster.\<close>

fun client_run :: "client \<Rightarrow> rmm_call \<Rightarrow> pool_event list" where
  "client_run (Client (LocalCUDACluster n devices)) call = map (\<lambda>i. On_worker i call) [0..<n]"

definition step4 :: "(string option \<Rightarrow> nat) \<Rightarrow> options \<Rightarrow> client option \<times> pool_event list" where
  "step4 device_mem_size opts =
     (if n_workers opts > 1 \<and> allow_multi_gpu opts then
        (let cluster = LocalCUDACluster (n_workers opts) (CUDA_VISIBLE_DEVICES opts);
             client = Client cluster
         in (Some client,
             if use_rmm_pool opts then client_run client (pool device_mem_size pool_default_frac)
             else []))
      else if use_rmm_pool opts then (None, [Local (pool device_mem_size pool_default_frac)])
      else (None, []))"

section \<open>Step 6: execution\<close>

datatype 'fs compute_call = Compute "'fs delayed" "string option"

definition step6 :: "client option \<Rightarrow> 'fs delayed \<Rightarrow> 'fs compute_call" where
  "step6 client d =
     (if client \<noteq> None then Compute d None else Compute d (Some ''synchronous''))"

section \<open>The training notebook's use of the memory pool\<close>

text \<open>The code cells of \<open>criteo-example\<close> in order, as the library calls they make; the
  calls to \<open>rmm\<close> are kept in full, every other call by its name.\<close>

datatype nb_event = Rmm rmm_call | Lib string

definition criteo_example :: "(string option \<Rightarrow> nat) \<Rightarrow> nb_event list" where
  "criteo_example device_mem_size =
     [Lib ''drop_caches'',
      Rmm (Rmm_reinitialize True (Some (8 / 10 * of_nat (device_mem_size (Some ''free''))))),
      Lib ''os.listdir'',
      Lib ''nvt.Workflow'', Lib ''add_cont_feature'', Lib ''add_cont_preprocess'',
      Lib ''add_cat_preprocess'',
      Lib ''nvt.Dataset'', Lib ''nvt.Dataset'',
      Lib ''mkdir'', Lib ''mkdir'',
      Lib ''proc.apply'', Lib ''proc.apply'',
      Rmm (Rmm_reinitialize False None),
      Lib ''glob.glob'', Lib ''glob.glob'',
      Lib ''TorchTensorBatchDatasetItr'', Lib ''TorchTensorBatchDatasetItr'',
      Lib ''DLDataLoader'', Lib ''DLDataLoader'', Lib ''DataBunch'',
      Lib ''get_embedding_sizes'',
      Lib ''TabularModel'', Lib ''Learner'', Lib ''CrossEntropyLoss'',
      Lib ''fit_one_cycle'']"

fun rmm_calls :: "nb_event list \<Rightarrow> rmm_call list" where
  "rmm_calls [] = []"
| "rmm_calls (Rmm c # es) = c # rmm_calls es"
| "rmm_calls (Lib n # es) = rmm_calls es"

section \<open>A small run\<close>

definition demo_library :: "(unit, nat) library" where
  "demo_library =
     \<lparr>get_fs_token_paths = (\<lambda>p. ()),
      fs_sep = (\<lambda>fs. ''/''),
      fs_glob = (\<lambda>fs pat. if pat = ''/data/day_*''
                   then [''/data/day_1'', ''/data/day_0.parquet'', ''/data/day_0''] else []),
      natural_sort_key = (\<lambda>s. of_char (last s)),
      analyze_paths = (\<lambda>fl fs. (''/data'', map (drop 6) fl)),
      tokenize = (\<lambda>args. ''abc'')\<rparr>"

definition demo_options :: options where
  "demo_options =
     \<lparr>INPUT_PATH = ''/data'', OUTPUT_PATH = ''/out'', CUDA_VISIBLE_DEVICES = ''0,1'',
      frac_size = 15 / 100, allow_multi_gpu = True, use_rmm_pool = True, max_day = None\<rparr>"

definition demo_gpu_library :: "(unit, nat, nat list) gpu_library" where
  "demo_gpu_library =
     \<lparr>GPUFileIterator = (\<lambda>args. if r_path args = ''/data/day_0'' \<and> r_sep args = [CHR 0x09]
                                then [10, 20, 30] else []),
      close_metadata = (\<lambda>w. w_tables w),
      merge_parquet_filemetadata = concat\<rparr>"

definition demo_world :: "nat list world" where
  "demo_world = \<lparr>files = Map.empty, log = []\<rparr>"

section \<open>The task dictionary of Step 5\<close>

declare str.simps [simp del]


lemma update_fresh: "k \<notin> fst ` set al \<Longrightarrow> AList.update k v al = al @ [(k, v)]"
  by (induction al) auto

lemma convert_tasks_append:
  "\<forall>j\<ge>i. Tuple [Str c, Intg (int j)] \<notin> fst ` set d \<Longrightarrow>
   convert_tasks c out fr fs i ps d =
     d @ map (\<lambda>j. (Tuple [Str c, Intg (int (i + j))],
                   Tuple [Func F_convert_file, Str (fst (ps ! j)), Str (snd (ps ! j)), Str out,
                          Float fr, Fs fs, Lst (map Str cols), Dct dtypes]))
           [0..<length ps]"
proof (induction ps arbitrary: i d)
  case Nil
  then show ?case by simp
next
  case (Cons p ps)
  obtain path name where p: "p = (path, name)" by (cases p)
  let ?k = "Tuple [Str c, Intg (int i)]"
  let ?t = "Tuple [Func F_convert_file, Str path, Str name, Str out, Float fr, Fs fs,
                       Lst (map Str cols), Dct dtypes]"
  let ?d' = "AList.update ?k ?t d"
  have fresh: "?k \<notin> fst ` set d" using Cons.prems by blast
  have d': "?d' = d @ [(?k, ?t)]"
    using fresh by (rule update_fresh)
  have "\<forall>j\<ge>Suc i. Tuple [Str c, Intg (int j)] \<notin> fst ` set ?d'"
    using Cons.prems by (auto simp: d')
  note ih = Cons.IH[OF this, unfolded d']
  show ?case
    by (simp add: p ih d' map_upt_Suc del: upt_Suc)
qed


lemma convert_tasks_empty:
  "convert_tasks c out fr fs 0 ps [] =
     map (\<lambda>j. (Tuple [Str c, Intg (int j)],
                   Tuple [Func F_convert_file, Str (fst (ps ! j)), Str (snd (ps ! j)), Str out,
                          Float fr, Fs fs, Lst (map Str cols), Dct dtypes]))
           [0..<length ps]"
  using convert_tasks_append[of 0 c "[]" out fr fs ps] by simp

lemma build_graph_fields:
  "file_list (build_graph tok fl nl out fr fs) = fl"
  "name_list (build_graph tok fl nl out fr fs) = nl"
  "fs_of (build_graph tok fl nl out fr fs) = fs"
  "token (build_graph tok fl nl out fr fs) =
     tok [Lst (map Str fl), Lst (map Str nl), Str out, Float fr, Fs fs, Lst (map Str cols), Dct dtypes]"
  "convert_file_name (build_graph tok fl nl out fr fs) = ''convert_file-'' @ token (build_graph tok fl nl out fr fs)"
  "write_meta_name (build_graph tok fl nl out fr fs) = ''write-metadata-'' @ token (build_graph tok fl nl out fr fs)"
  "graph (build_graph tok fl nl out fr fs) =
     from_collections (write_meta_name (build_graph tok fl nl out fr fs)) (dsk (build_graph tok fl nl out fr fs))"
  "conversion_delayed (build_graph tok fl nl out fr fs) =
     \<lparr>key = Str (write_meta_name (build_graph tok fl nl out fr fs)), dask = graph (build_graph tok fl nl out fr fs)\<rparr>"
  by (simp_all add: build_graph_def Let_def)

lemma build_graph_dsk:
  "dsk (build_graph tok fl nl out fr fs) =
     map (\<lambda>i. (Tuple [Str (convert_file_name (build_graph tok fl nl out fr fs)), Intg (int i)],
                Tuple [Func F_convert_file, Str (fl ! i), Str (nl ! i), Str out, Float fr, Fs fs,
                       Lst (map Str cols), Dct dtypes]))
         [0..<min (length fl) (length nl)]
     @ [(Str (write_meta_name (build_graph tok fl nl out fr fs)),
         Tuple [Func F_write_metadata,
                Lst (map (\<lambda>i. Tuple [Str (convert_file_name (build_graph tok fl nl out fr fs)), Intg (int i)])
                       [0..<length fl]),
                Fs fs, Str out])]"
  by (simp add: build_graph_def Let_def convert_tasks_empty update_fresh image_iff)

lemma step5_build_graph:
  "step5 L opts =
     build_graph (tokenize L) (file_list (step5 L opts)) (name_list (step5 L opts))
       (OUTPUT_PATH opts) (frac_size opts) (fs_of (step5 L opts))"
  by (simp add: step5_def Let_def build_graph_fields)

text \<open>
  Claim C1. When the path analysis returns one name per selected file, the task dictionary
  of Step 5 is, in order: for each \<open>i\<close> below the number \<open>n\<close> of files, the key
  \<open>("convert_file-" + token, i)\<close> bound to the call of \<open>_convert_file\<close> on the
  \<open>i\<close>-th path and the \<open>i\<close>-th name; then the one key \<open>"write-metadata-" + token\<close>,
  bound to the call of \<open>_write_metadata\<close> whose first argument lists all \<open>n\<close>
  conversion keys. The keys are pairwise different, so the dictionary has \<open>n + 1\<close> tasks.
\<close>

theorem task_dictionary:
  assumes "length (name_list (step5 L opts)) = length (file_list (step5 L opts))"
  shows "let r = step5 L opts; n = length (file_list r) in
           convert_file_name r = ''convert_file-'' @ token r \<and>
           write_meta_name r = ''write-metadata-'' @ token r \<and>
           dsk r =
             map (\<lambda>i. (Tuple [Str (convert_file_name r), Intg (int i)],
                        Tuple [Func F_convert_file, Str (file_list r ! i), Str (name_list r ! i),
                               Str (OUTPUT_PATH opts), Float (frac_size opts), Fs (fs_of r),
                               Lst (map Str cols), Dct dtypes]))
                 [0..<n]
             @ [(Str (write_meta_name r),
                 Tuple [Func F_write_metadata,
                        Lst (map (\<lambda>i. Tuple [Str (convert_file_name r), Intg (int i)]) [0..<n]),
                        Fs (fs_of r), Str (OUTPUT_PATH opts)])] \<and>
           distinct (map fst (dsk r)) \<and>
           length (dsk r) = n + 1"
proof -
  let ?r = "step5 L opts"
  let ?b = "build_graph (tokenize L) (file_list ?r) (name_list ?r) (OUTPUT_PATH opts) (frac_size opts) (fs_of ?r)"
  have r: "?r = ?b" by (rule step5_build_graph)
  have names: "convert_file_name ?r = ''convert_file-'' @ token ?r"
    "write_meta_name ?r = ''write-metadata-'' @ token ?r"
    by (subst r, subst (2) r, rule build_graph_fields)+
  have d: "dsk ?r =
             map (\<lambda>i. (Tuple [Str (convert_file_name ?r), Intg (int i)],
                        Tuple [Func F_convert_file, Str (file_list ?r ! i), Str (name_list ?r ! i),
                               Str (OUTPUT_PATH opts), Float (frac_size opts), Fs (fs_of ?r),
                               Lst (map Str cols), Dct dtypes]))
                 [0..<length (file_list ?r)]
             @ [(Str (write_meta_name ?r),
                 Tuple [Func F_write_metadata,
                        Lst (map (\<lambda>i. Tuple [Str (convert_file_name ?r), Intg (int i)]) [0..<length (file_list ?r)]),
                        Fs (fs_of ?r), Str (OUTPUT_PATH opts)])]"
    using build_graph_dsk[of "tokenize L" "file_list ?r" "name_list ?r" "OUTPUT_PATH opts" "frac_size opts" "fs_of ?r"] assms
    unfolding r[symmetric] by simp
  have dist: "distinct (map fst (dsk ?r))"
    unfolding d by (simp add: distinct_map inj_on_def comp_def image_iff)
  have len: "length (dsk ?r) = length (file_list ?r) + 1"
    unfolding d by simp
  show ?thesis
    unfolding Let_def using names d dist len by blast
qed


subsection \<open>The small run\<close>

lemma demo_file_list:
  "file_list (step5 demo_library demo_options) = [''/data/day_0'', ''/data/day_1'']"
  by (simp add: step5_def build_graph_fields file_list_of_def demo_library_def demo_options_def
      endswith_def Let_def)

lemma demo_name_list:
  "name_list (step5 demo_library demo_options) = [''day_0'', ''day_1'']"
  by (simp add: step5_def build_graph_fields file_list_of_def demo_library_def demo_options_def
      endswith_def Let_def)

lemma demo_token:
  "token (step5 demo_library demo_options) = ''abc''"
  "fs_of (step5 demo_library demo_options) = ()"
  by (simp_all add: step5_def build_graph_fields demo_library_def Let_def)

theorem task_dictionary_witness:
  "length (name_list (step5 demo_library demo_options))
     = length (file_list (step5 demo_library demo_options)) \<and>
   dsk (step5 demo_library demo_options) =
     [(Tuple [Str ''convert_file-abc'', Intg 0],
       Tuple [Func F_convert_file, Str ''/data/day_0'', Str ''day_0'', Str ''/out'',
              Float (15 / 100), Fs (), Lst (map Str cols), Dct dtypes]),
      (Tuple [Str ''convert_file-abc'', Intg 1],
       Tuple [Func F_convert_file, Str ''/data/day_1'', Str ''day_1'', Str ''/out'',
              Float (15 / 100), Fs (), Lst (map Str cols), Dct dtypes]),
      (Str ''write-metadata-abc'',
       Tuple [Func F_write_metadata,
              Lst [Tuple [Str ''convert_file-abc'', Intg 0], Tuple [Str ''convert_file-abc'', Intg 1]],
              Fs (), Str ''/out''])]"
proof -
  have h: "length (name_list (step5 demo_library demo_options))
             = length (file_list (step5 demo_library demo_options))"
    by (simp add: demo_file_list demo_name_list)
  have two: "[0..<2] = [0, Suc 0]" by (simp add: upt_rec)
  have o: "OUTPUT_PATH demo_options = ''/out''" "frac_size demo_options = 15 / 100"
    by (simp_all add: demo_options_def)
  show ?thesis
    using task_dictionary[OF h]
    by (simp add: Let_def demo_file_list demo_name_list demo_token two o)
qed


section \<open>The shape of the graph\<close>

lemma cols_shape:
  "c \<in> set cols \<Longrightarrow> c = ''label'' \<or> (\<exists>t. c = ''I'' @ t) \<or> (\<exists>t. c = ''C'' @ t)"
  by (auto simp: cols_def cont_names_def cat_names_def)

lemma write_meta_not_col: "''write-metadata-'' @ t \<notin> set cols"
  using cols_shape[of "''write-metadata-'' @ t"] by auto

lemma fold_update_values:
  "snd ` set (fold (\<lambda>x. AList.update x v) xs d) \<subseteq> insert v (snd ` set d)"
proof (induction xs arbitrary: d)
  case Nil
  then show ?case by auto
next
  case (Cons x xs)
  have "snd ` set (AList.update x v d) \<subseteq> insert v (snd ` set d)"
    by (induction d) auto
  with Cons[of "AList.update x v d"] show ?case by auto
qed

lemma dtypes_values: "snd ` set (dtypes :: (string \<times> 'fs pyval) list) \<subseteq> {Np_int64, Str ''hex''}"
proof -
  let ?d1 = "AList.update ''label'' Np_int64 ([] :: (string \<times> 'fs pyval) list)"
  let ?d2 = "fold (\<lambda>x. AList.update x Np_int64) cont_names ?d1"
  have 1: "snd ` set ?d1 \<subseteq> {Np_int64}" by simp
  have 2: "snd ` set ?d2 \<subseteq> {Np_int64}"
    using fold_update_values[of Np_int64 cont_names ?d1] 1 by auto
  have "snd ` set (fold (\<lambda>x. AList.update x (Str ''hex'')) cat_names ?d2) \<subseteq> {Np_int64, Str ''hex''}"
    using fold_update_values[of "Str ''hex''" cat_names ?d2] 2 by auto
  then show ?thesis by (simp add: dtypes_def Let_def)
qed

lemma keys_in_tasks_strs:
  "\<forall>c\<in>set cs. Str c \<notin> set ks \<Longrightarrow> keys_in_tasks ks (Lst (map Str cs)) = []"
  by (induction cs) auto

lemma keys_in_tasks_dtypes:
  assumes "Np_int64 \<notin> set ks" and "Str ''hex'' \<notin> set ks"
  shows "keys_in_tasks ks (Dct dtypes) = []"
proof -
  have "\<forall>kv\<in>set dtypes. keys_in_tasks ks (snd kv) = []"
  proof
    fix kv :: "string \<times> 'a pyval" assume "kv \<in> set dtypes"
    then have "snd kv \<in> {Np_int64, Str ''hex''}" using dtypes_values by blast
    then show "keys_in_tasks ks (snd kv) = []" using assms by auto
  qed
  then show ?thesis by (simp add: concat_eq_Nil_conv)
qed

lemma keys_in_tasks_keys:
  "\<forall>k\<in>set xs. k \<in> set ks \<and> (\<exists>c i. k = Tuple [Str c, Intg i]) \<Longrightarrow>
   keys_in_tasks ks (Lst xs) = xs"
  by (induction xs) auto

lemma map_of_tabulate:
  "inj f \<Longrightarrow> i \<in> set xs \<Longrightarrow> map_of (map (\<lambda>i. (f i, g i)) xs) (f i) = Some (g i)"
  by (induction xs) (auto dest: injD)

lemma conv_key_inj: "inj (\<lambda>i. Tuple [Str c, Intg (int i)])"
  by (simp add: inj_def)

lemma build_graph_keys:
  "map fst (dsk (build_graph tok fl nl out fr fs)) =
     map (\<lambda>i. Tuple [Str (convert_file_name (build_graph tok fl nl out fr fs)), Intg (int i)])
       [0..<min (length fl) (length nl)]
     @ [Str (write_meta_name (build_graph tok fl nl out fr fs))]"
  by (simp add: build_graph_dsk comp_def)

lemma lookup_tabulate_append:
  "inj f \<Longrightarrow> i \<in> set xs \<Longrightarrow> map_of (map (\<lambda>i. (f i, g i)) xs @ rest) (f i) = Some (g i)"
  by (simp add: map_of_tabulate map_add_find_right)

lemma lookup_after_tabulate:
  "k \<notin> f ` set xs \<Longrightarrow> map_of (map (\<lambda>i. (f i, g i)) xs @ [(k, v)]) k = Some v"
  by (induction xs) auto

lemma build_graph_lookup_convert:
  assumes "i < min (length fl) (length nl)"
  shows "map_of (dsk (build_graph tok fl nl out fr fs))
           (Tuple [Str (convert_file_name (build_graph tok fl nl out fr fs)), Intg (int i)]) =
         Some (Tuple [Func F_convert_file, Str (fl ! i), Str (nl ! i), Str out, Float fr, Fs fs,
                      Lst (map Str cols), Dct dtypes])"
proof -
  have "i \<in> set [0..<min (length fl) (length nl)]" using assms by simp
  then show ?thesis
    by (subst build_graph_dsk) (rule lookup_tabulate_append[OF conv_key_inj])
qed

lemma build_graph_lookup_meta:
  "map_of (dsk (build_graph tok fl nl out fr fs))
           (Str (write_meta_name (build_graph tok fl nl out fr fs))) =
         Some (Tuple [Func F_write_metadata,
                Lst (map (\<lambda>i. Tuple [Str (convert_file_name (build_graph tok fl nl out fr fs)), Intg (int i)])
                       [0..<length fl]),
                Fs fs, Str out])"
  by (subst build_graph_dsk) (rule lookup_after_tabulate, auto)

lemma deps_convert:
  assumes "i < min (length fl) (length nl)"
    and "write_meta_name (build_graph tok fl nl out fr fs) \<notin> set fl \<union> set nl \<union> {out}"
  shows "get_dependencies (dsk (build_graph tok fl nl out fr fs))
           (Tuple [Str (convert_file_name (build_graph tok fl nl out fr fs)), Intg (int i)]) = []"
proof -
  let ?g = "build_graph tok fl nl out fr fs"
  let ?ks = "map fst (dsk ?g)"
  have "Str s \<in> set ?ks \<longleftrightarrow> s = write_meta_name ?g" for s
    unfolding build_graph_keys by auto
  then have str: "Str s \<in> fst ` set (dsk ?g) \<longleftrightarrow> s = write_meta_name ?g" for s
    by simp
  have "fl ! i \<in> set fl" "nl ! i \<in> set nl" using assms(1) by simp_all
  then have a: "Str (fl ! i) \<notin> set ?ks" "Str (nl ! i) \<notin> set ?ks" "Str out \<notin> set ?ks"
    using assms(2) by (auto simp: str)
  have b: "Float fr \<notin> set ?ks" "Fs fs \<notin> set ?ks" "Np_int64 \<notin> set ?ks" "Str ''hex'' \<notin> set ?ks"
    unfolding build_graph_keys by (auto simp: build_graph_fields)
  have wm: "write_meta_name ?g \<notin> set cols"
    unfolding build_graph_fields(6) by (rule write_meta_not_col)
  have c: "keys_in_tasks ?ks (Lst (map Str cols)) = []"
    by (rule keys_in_tasks_strs) (use wm in \<open>auto simp: str\<close>)
  have d: "keys_in_tasks ?ks (Dct dtypes) = []"
    using b by (intro keys_in_tasks_dtypes)
  show ?thesis
    unfolding get_dependencies_def build_graph_lookup_convert[OF assms(1)]
    using a b c d by simp
qed

lemma deps_meta:
  assumes "length nl = length fl"
    and "write_meta_name (build_graph tok fl nl out fr fs) \<noteq> out"
  shows "get_dependencies (dsk (build_graph tok fl nl out fr fs))
           (Str (write_meta_name (build_graph tok fl nl out fr fs))) =
         map (\<lambda>i. Tuple [Str (convert_file_name (build_graph tok fl nl out fr fs)), Intg (int i)])
           [0..<length fl]"
proof -
  let ?g = "build_graph tok fl nl out fr fs"
  let ?ks = "map fst (dsk ?g)"
  let ?cs = "map (\<lambda>i. Tuple [Str (convert_file_name ?g), Intg (int i)]) [0..<length fl]"
  have a: "Fs fs \<notin> set ?ks" "Str out \<notin> set ?ks"
    using assms(2) unfolding build_graph_keys by auto
  have "keys_in_tasks ?ks (Lst ?cs) = ?cs"
    unfolding build_graph_keys by (rule keys_in_tasks_keys) (auto simp: assms(1))
  then show ?thesis
    unfolding get_dependencies_def build_graph_lookup_meta
    using a by simp
qed



lemma get_dependencies_key:
  "k' \<in> set (get_dependencies d k) \<Longrightarrow> k \<in> set (map fst d)"
  by (auto simp: get_dependencies_def map_of_eq_None_iff split: option.splits)
     (metis fst_conv image_eqI map_of_SomeD)

lemma fan_in_sink:
  assumes keys: "set (map fst d) = C \<union> {w}" and w: "w \<notin> C"
    and conv: "\<forall>k\<in>C. get_dependencies d k = []"
    and meta: "set (get_dependencies d w) = C"
  shows "is_sink d k \<longleftrightarrow> k = w"
proof
  assume s: "is_sink d k"
  show "k = w"
  proof (rule ccontr)
    assume "k \<noteq> w"
    with s keys have "k \<in> C" by (auto simp: is_sink_def)
    then have "k \<in> set (get_dependencies d w)" using meta by simp
    moreover have "w \<in> set (map fst d)" using keys by simp
    ultimately show False using s by (auto simp: is_sink_def list_all_iff)
  qed
next
  assume k: "k = w"
  have "w \<notin> set (get_dependencies d k')" if "k' \<in> set (map fst d)" for k'
  proof (cases "k' = w")
    case True
    then show ?thesis using meta w by simp
  next
    case False
    with that keys have "k' \<in> C" by auto
    then show ?thesis using conv by simp
  qed
  then show "is_sink d k"
    using keys k unfolding is_sink_def list_all_iff by blast
qed

lemma fan_in_chain:
  assumes keys: "set (map fst d) = C \<union> {w}" and w: "w \<notin> C"
    and conv: "\<forall>k\<in>C. get_dependencies d k = []"
    and meta: "set (get_dependencies d w) = C"
    and chain: "dep_chain d ks"
  shows "length ks \<le> 2"
proof (rule ccontr)
  assume "\<not> length ks \<le> 2"
  then obtain k1 k2 k3 rest where ks: "ks = k1 # k2 # k3 # rest"
    by (cases ks; cases "tl ks"; cases "tl (tl ks)") auto
  from chain have 12: "k2 \<in> set (get_dependencies d k1)" and 23: "k3 \<in> set (get_dependencies d k2)"
    by (simp_all add: ks)
  from 12 have "k1 \<in> set (map fst d)" by (rule get_dependencies_key)
  with keys conv 12 have "k1 = w" by auto
  with 12 meta have "k2 \<in> C" by simp
  with conv 23 show False by simp
qed


lemma build_graph_fan_in:
  fixes tok fl nl out fr fs
  defines "g \<equiv> build_graph tok fl nl out fr fs"
  defines "ck \<equiv> \<lambda>i. Tuple [Str (convert_file_name g), Intg (int i)]"
  assumes len: "length nl = length fl"
    and fresh: "write_meta_name g \<notin> set fl \<union> set nl \<union> {out}"
  shows "set (map fst (dsk g)) = ck ` {0..<length fl} \<union> {Str (write_meta_name g)}"
    and "\<forall>i<length fl. get_dependencies (dsk g) (ck i) = []"
    and "set (get_dependencies (dsk g) (Str (write_meta_name g))) = ck ` {0..<length fl}"
    and "is_sink (dsk g) k \<longleftrightarrow> k = Str (write_meta_name g)"
    and "dep_chain (dsk g) ks \<longrightarrow> length ks \<le> 2"
    and "0 < length fl \<longrightarrow> dep_chain (dsk g) [Str (write_meta_name g), ck 0]"
proof -
  let ?C = "ck ` {0..<length fl}"
  let ?w = "Str (write_meta_name g)"
  show keys: "set (map fst (dsk g)) = ?C \<union> {?w}"
    unfolding g_def build_graph_keys ck_def using len by (auto simp: g_def)
  have w: "?w \<notin> ?C" by (auto simp: ck_def)
  show conv: "\<forall>i<length fl. get_dependencies (dsk g) (ck i) = []"
    using deps_convert[of _ fl nl tok out fr fs] len fresh by (simp add: g_def ck_def)
  then have conv': "\<forall>k\<in>?C. get_dependencies (dsk g) k = []" by auto
  have "write_meta_name g \<noteq> out" using fresh by simp
  from deps_meta[OF len this[unfolded g_def]]
  have meta_list: "get_dependencies (dsk g) ?w = map ck [0..<length fl]"
    by (simp add: g_def ck_def)
  then show meta: "set (get_dependencies (dsk g) ?w) = ?C" by simp
  show "is_sink (dsk g) k \<longleftrightarrow> k = ?w"
    by (rule fan_in_sink[OF keys w conv' meta])
  show "dep_chain (dsk g) ks \<longrightarrow> length ks \<le> 2"
    using fan_in_chain[OF keys w conv' meta] by blast
  show "0 < length fl \<longrightarrow> dep_chain (dsk g) [?w, ck 0]"
    using keys by (auto simp: meta_list)
qed

text \<open>
  Claim C3. Dask takes as a task's dependencies the keys of the dictionary found in its
  arguments, so a string argument equal to a key would count. The token is a digest of the
  inputs; the hypothesis says that the merge key \<open>"write-metadata-" + token\<close> is not itself
  one of the paths, one of the names or the output path, and that there is one name per
  path. Then the tasks are the \<open>n\<close> conversion tasks and the merge task; no conversion
  task depends on anything; the merge task depends on exactly the conversion tasks; the
  Delayed is keyed on the merge task and wraps the dictionary as its only layer; the merge
  task is the only sink; and no chain of dependencies has more than two tasks, a chain of
  two existing as soon as there is one input file.
\<close>

theorem fan_in_dag:
  assumes "length (name_list (step5 L opts)) = length (file_list (step5 L opts))"
    and "write_meta_name (step5 L opts)
           \<notin> set (file_list (step5 L opts)) \<union> set (name_list (step5 L opts)) \<union> {OUTPUT_PATH opts}"
  shows "let r = step5 L opts; d = dsk r; n = length (file_list r);
             ck = (\<lambda>i. Tuple [Str (convert_file_name r), Intg (int i)]);
             w = Str (write_meta_name r)
         in set (map fst d) = ck ` {0..<n} \<union> {w} \<and>
            (\<forall>i<n. get_dependencies d (ck i) = []) \<and>
            set (get_dependencies d w) = ck ` {0..<n} \<and>
            key (conversion_delayed r) = w \<and>
            dask (conversion_delayed r) = from_collections (write_meta_name r) d \<and>
            (\<forall>k. is_sink d k \<longleftrightarrow> k = w) \<and>
            (\<forall>ks. dep_chain d ks \<longrightarrow> length ks \<le> 2) \<and>
            (0 < n \<longrightarrow> dep_chain d [w, ck 0])"
proof -
  let ?r = "step5 L opts"
  let ?b = "build_graph (tokenize L) (file_list ?r) (name_list ?r) (OUTPUT_PATH opts) (frac_size opts) (fs_of ?r)"
  have r: "?b = ?r" by (rule step5_build_graph[symmetric])
  have fresh: "write_meta_name ?b \<notin> set (file_list ?r) \<union> set (name_list ?r) \<union> {OUTPUT_PATH opts}"
    unfolding r by (rule assms(2))
  note f = build_graph_fan_in[OF assms(1) fresh, unfolded r]
  have k: "key (conversion_delayed ?r) = Str (write_meta_name ?r)"
    "dask (conversion_delayed ?r) = from_collections (write_meta_name ?r) (dsk ?r)"
    using build_graph_fields(7,8)[of "tokenize L" "file_list ?r" "name_list ?r" "OUTPUT_PATH opts" "frac_size opts" "fs_of ?r"]
    unfolding r by simp_all
  show ?thesis
    unfolding Let_def using f k by blast
qed


lemma demo_names:
  "convert_file_name (step5 demo_library demo_options) = ''convert_file-abc''"
  "write_meta_name (step5 demo_library demo_options) = ''write-metadata-abc''"
  by (simp_all add: step5_def build_graph_fields demo_library_def Let_def)

lemma demo_options_fields:
  "OUTPUT_PATH demo_options = ''/out''"
  "frac_size demo_options = 15 / 100"
  by (simp_all add: demo_options_def)

theorem fan_in_dag_witness:
  "length (name_list (step5 demo_library demo_options))
     = length (file_list (step5 demo_library demo_options)) \<and>
   write_meta_name (step5 demo_library demo_options)
     \<notin> set (file_list (step5 demo_library demo_options))
        \<union> set (name_list (step5 demo_library demo_options)) \<union> {OUTPUT_PATH demo_options} \<and>
   get_dependencies (dsk (step5 demo_library demo_options))
     (Tuple [Str ''convert_file-abc'', Intg 1]) = [] \<and>
   set (get_dependencies (dsk (step5 demo_library demo_options)) (Str ''write-metadata-abc''))
     = {Tuple [Str ''convert_file-abc'', Intg 0], Tuple [Str ''convert_file-abc'', Intg 1]} \<and>
   is_sink (dsk (step5 demo_library demo_options)) (Str ''write-metadata-abc'') \<and>
   \<not> is_sink (dsk (step5 demo_library demo_options)) (Tuple [Str ''convert_file-abc'', Intg 0]) \<and>
   dep_chain (dsk (step5 demo_library demo_options))
     [Str ''write-metadata-abc'', Tuple [Str ''convert_file-abc'', Intg 0]]"
proof -
  have h1: "length (name_list (step5 demo_library demo_options))
             = length (file_list (step5 demo_library demo_options))"
    by (simp add: demo_file_list demo_name_list)
  have h2: "write_meta_name (step5 demo_library demo_options)
     \<notin> set (file_list (step5 demo_library demo_options))
        \<union> set (name_list (step5 demo_library demo_options)) \<union> {OUTPUT_PATH demo_options}"
    by (simp add: demo_file_list demo_name_list demo_names demo_options_fields)
  have two: "{0..<Suc (Suc 0)} = {0, Suc 0}" by auto
  note t = fan_in_dag[OF h1 h2, unfolded Let_def demo_names demo_file_list]
  from t have "\<forall>i<Suc (Suc 0). get_dependencies (dsk (step5 demo_library demo_options))
     (Tuple [Str ''convert_file-abc'', Intg (int i)]) = []"
    by simp
  then have "get_dependencies (dsk (step5 demo_library demo_options))
     (Tuple [Str ''convert_file-abc'', Intg (int (Suc 0))]) = []"
    by blast
  then have c: "get_dependencies (dsk (step5 demo_library demo_options))
     (Tuple [Str ''convert_file-abc'', Intg 1]) = []"
    by simp
  from t c show ?thesis
    using h1 h2 by (simp add: two)
qed

section \<open>The selected files\<close>

lemma endswith_iff: "endswith x s \<longleftrightarrow> (\<exists>p. x = p @ s)"
proof
  assume "endswith x s"
  then have "x = take (length x - length s) x @ s"
    by (metis append_take_drop_id endswith_def)
  then show "\<exists>p. x = p @ s" ..
next
  assume "\<exists>p. x = p @ s"
  then show "endswith x s" by (auto simp: endswith_def)
qed

lemma step5_file_list: "file_list (step5 L opts) = file_list_of L opts"
  by (simp add: step5_def Let_def build_graph_fields)

text \<open>
  Claim C4, as amended. The entries that \<open>fs.glob\<close> returns for \<open>INPUT_PATH/day_*\<close>
  are kept when they do not end with \<open>parquet\<close> (none is lost or doubled) and sorted by the
  natural sort key. With \<open>max_day\<close> \<open>None\<close> or \<open>0\<close> the file list is this full list;
  with a positive \<open>max_day\<close> it is its first \<open>max_day\<close> entries; with a negative
  \<open>max_day\<close> the slice \<open>file_list[:max_day]\<close> drops the last \<open>-max_day\<close> entries.
\<close>

theorem selected_files:
  "let fs = get_fs_token_paths L (INPUT_PATH opts);
       entries = fs_glob L fs (INPUT_PATH opts @ fs_sep L fs @ ''day_*'');
       kept = filter (\<lambda>x. \<not> endswith x ''parquet'') entries;
       full = sort_key (natural_sort_key L) kept
   in (\<forall>x. endswith x ''parquet'' \<longleftrightarrow> (\<exists>p. x = p @ ''parquet'')) \<and>
      mset full = mset kept \<and>
      sorted (map (natural_sort_key L) full) \<and>
      file_list (step5 L opts) =
        (case max_day opts of
           None \<Rightarrow> full
         | Some k \<Rightarrow>
             if k = 0 then full
             else if 0 < k then take (nat k) full
             else take (length full - nat (- k)) full)"
proof -
  have "nat (int n + k) = n - nat (- k)" if "k < 0" for n k
    using that by linarith
  then show ?thesis
    by (auto simp: Let_def endswith_iff step5_file_list file_list_of_def slice_to_def
        split: option.splits)
qed

lemma demo_fields_upd:
  "INPUT_PATH (demo_options\<lparr>max_day := m\<rparr>) = ''/data''"
  "max_day (demo_options\<lparr>max_day := m\<rparr>) = m"
  by (simp_all add: demo_options_def)

lemma demo_library_fields:
  "get_fs_token_paths demo_library p = ()"
  "fs_sep demo_library fs = ''/''"
  "fs_glob demo_library fs ''/data/day_*'' = [''/data/day_1'', ''/data/day_0.parquet'', ''/data/day_0'']"
  "natural_sort_key demo_library ''/data/day_0'' = 48"
  "natural_sort_key demo_library ''/data/day_1'' = 49"
  by (simp_all add: demo_library_def)

theorem selected_files_witness:
  "file_list (step5 demo_library (demo_options\<lparr>max_day := Some 1\<rparr>)) = [''/data/day_0''] \<and>
   file_list (step5 demo_library (demo_options\<lparr>max_day := Some 0\<rparr>))
     = [''/data/day_0'', ''/data/day_1'']"
  using selected_files[of demo_library "demo_options\<lparr>max_day := Some 1\<rparr>"]
    selected_files[of demo_library "demo_options\<lparr>max_day := Some 0\<rparr>"]
  by (simp add: Let_def demo_fields_upd demo_library_fields endswith_def)

text \<open>
  The claim C4 as stated takes every truthy \<open>max_day\<close> to cut the list to its first
  \<open>max_day\<close> entries. With \<open>max_day = -1\<close>, which is truthy, and two files selected, the
  list still holds one file.
\<close>

theorem max_day_negative_counterexample:
  "truthy (Some (- 1)) \<and>
   file_list (step5 demo_library (demo_options\<lparr>max_day := Some (- 1)\<rparr>)) = [''/data/day_0''] \<and>
   file_list (step5 demo_library (demo_options\<lparr>max_day := Some (- 1)\<rparr>))
     \<noteq> take (nat (- 1)) (file_list (step5 demo_library (demo_options\<lparr>max_day := None\<rparr>)))"
  by (simp add: step5_file_list file_list_of_def Let_def demo_fields_upd demo_library_fields
      endswith_def slice_to_def)

section \<open>Cluster, memory pool and execution\<close>

lemma split_nonempty: "split c s \<noteq> []"
  by (induction s) (auto split: list.splits)

lemma length_split: "length (split c s) = Suc (count_list s c)"
proof (induction s)
  case Nil
  then show ?case by simp
next
  case (Cons x xs)
  then show ?case
    using split_nonempty[of c xs] by (auto split: list.splits)
qed

text \<open>
  Claim C5. The number of workers is the number of comma-separated entries of
  \<open>CUDA_VISIBLE_DEVICES\<close>, one more than its commas. Step 4 creates a client, on a local
  CUDA cluster with that many workers, exactly when there is more than one entry and
  \<open>allow_multi_gpu\<close> is set. Step 6 calls \<open>compute\<close> on the Delayed that wraps the task
  dictionary of Step 5 under the merge key: with the default scheduler when a client was
  created, with \<open>scheduler="synchronous"\<close> otherwise.
\<close>

theorem client_and_scheduler:
  "let client = fst (step4 dms opts); r = step5 L opts in
     n_workers opts = Suc (count_list (CUDA_VISIBLE_DEVICES opts) CHR '','') \<and>
     (client \<noteq> None \<longleftrightarrow> 1 < n_workers opts \<and> allow_multi_gpu opts) \<and>
     (client \<noteq> None \<longleftrightarrow>
        client = Some (Client (LocalCUDACluster (n_workers opts) (CUDA_VISIBLE_DEVICES opts)))) \<and>
     step6 client (conversion_delayed r) =
       Compute \<lparr>key = Str (write_meta_name r),
                dask = \<lparr>layers = [(write_meta_name r, dsk r)],
                         dependencies = [(write_meta_name r, [])]\<rparr>\<rparr>
         (if client = None then Some ''synchronous'' else None)"
proof -
  let ?r = "step5 L opts"
  let ?b = "build_graph (tokenize L) (file_list ?r) (name_list ?r) (OUTPUT_PATH opts) (frac_size opts) (fs_of ?r)"
  have r: "?b = ?r" by (rule step5_build_graph[symmetric])
  have d: "conversion_delayed ?r =
      \<lparr>key = Str (write_meta_name ?r),
       dask = \<lparr>layers = [(write_meta_name ?r, dsk ?r)], dependencies = [(write_meta_name ?r, [])]\<rparr>\<rparr>"
    using build_graph_fields(7,8)[of "tokenize L" "file_list ?r" "name_list ?r" "OUTPUT_PATH opts" "frac_size opts" "fs_of ?r"]
    unfolding r by (simp add: from_collections_def)
  have n: "n_workers opts = Suc (count_list (CUDA_VISIBLE_DEVICES opts) CHR '','')"
    by (simp add: n_workers_def length_split)
  have c: "fst (step4 dms opts) =
      (if 1 < n_workers opts \<and> allow_multi_gpu opts
       then Some (Client (LocalCUDACluster (n_workers opts) (CUDA_VISIBLE_DEVICES opts))) else None)"
    by (simp add: step4_def Let_def)
  show ?thesis
    unfolding Let_def d using n by (simp add: c step6_def)
qed

lemma demo_step4_fields:
  "CUDA_VISIBLE_DEVICES demo_options = ''0,1''"
  "allow_multi_gpu demo_options = True"
  "use_rmm_pool demo_options = True"
  "n_workers demo_options = 2"
  by (simp_all add: demo_options_def n_workers_def)

theorem client_and_scheduler_witness:
  "fst (step4 (\<lambda>kind. 1000) demo_options) = Some (Client (LocalCUDACluster 2 ''0,1'')) \<and>
   step6 (fst (step4 (\<lambda>kind. 1000) demo_options)) (conversion_delayed (step5 demo_library demo_options)) =
     Compute \<lparr>key = Str ''write-metadata-abc'',
              dask = \<lparr>layers = [(''write-metadata-abc'', dsk (step5 demo_library demo_options))],
                       dependencies = [(''write-metadata-abc'', [])]\<rparr>\<rparr> None"
  using client_and_scheduler[of "\<lambda>kind. 1000" demo_options demo_library]
  by (auto simp: Let_def demo_step4_fields demo_names)

text \<open>
  Claim C6. In the conversion notebook the calls to \<open>rmm.reinitialize\<close> are: none when
  \<open>use_rmm_pool\<close> is unset; otherwise one on every worker when a client was created and one
  local call when not, each with \<open>pool_allocator=True\<close> and an initial pool size of 0.8
  times the device memory size. In the training notebook \<open>rmm\<close> is called twice: first with
  \<open>pool_allocator=True\<close> and 0.8 times the free device memory, later with
  \<open>pool_allocator=False\<close>.
\<close>

theorem memory_pool_configuration:
  "let c = Rmm_reinitialize True (Some (8 / 10 * of_nat (dms None)));
       created = (1 < n_workers opts \<and> allow_multi_gpu opts)
   in snd (step4 dms opts) =
        (if use_rmm_pool opts
         then (if created then map (\<lambda>i. On_worker i c) [0..<n_workers opts] else [Local c])
         else []) \<and>
      (snd (step4 dms opts) \<noteq> [] \<longleftrightarrow> use_rmm_pool opts) \<and>
      rmm_calls (criteo_example dms) =
        [Rmm_reinitialize True (Some (8 / 10 * of_nat (dms (Some ''free'')))),
         Rmm_reinitialize False None]"
  by (auto simp: Let_def step4_def pool_def pool_default_frac_def criteo_example_def)

theorem memory_pool_configuration_witness:
  "snd (step4 (\<lambda>kind. 1000) demo_options) =
     [On_worker 0 (Rmm_reinitialize True (Some 800)), On_worker 1 (Rmm_reinitialize True (Some 800))] \<and>
   snd (step4 (\<lambda>kind. 1000) (demo_options\<lparr>allow_multi_gpu := False\<rparr>)) =
     [Local (Rmm_reinitialize True (Some 800))] \<and>
   snd (step4 (\<lambda>kind. 1000) (demo_options\<lparr>use_rmm_pool := False\<rparr>)) = []"
proof -
  have two: "[0..<2] = [0, Suc 0]" by (simp add: upt_rec)
  have f: "n_workers (demo_options\<lparr>allow_multi_gpu := False\<rparr>) = 2"
    "n_workers (demo_options\<lparr>use_rmm_pool := False\<rparr>) = 2"
    "use_rmm_pool (demo_options\<lparr>allow_multi_gpu := False\<rparr>) = True"
    by (simp_all add: demo_options_def n_workers_def)
  show ?thesis
    using memory_pool_configuration[of "\<lambda>kind. 1000" demo_options]
      memory_pool_configuration[of "\<lambda>kind. 1000" "demo_options\<lparr>allow_multi_gpu := False\<rparr>"]
      memory_pool_configuration[of "\<lambda>kind. 1000" "demo_options\<lparr>use_rmm_pool := False\<rparr>"]
    by (simp add: Let_def demo_step4_fields f two)
qed


section \<open>The task functions\<close>

lemma fold_write_table:
  "fold (\<lambda>gdf w. write_table w gdf) gdfs w = w\<lparr>w_tables := w_tables w @ gdfs\<rparr>"
  by (induction gdfs arbitrary: w) (simp_all add: write_table_def)

text \<open>
  Claim C2. \<open>_convert_file\<close> opens one writer on \<open>out_dir + sep + name + ".parquet"\<close>
  without compression, asks the file iterator for the chunks of the input path read as CSV
  with a tab separator and the given fraction of GPU memory, writes every chunk to that
  writer in order and nothing else, closes the writer with the metadata file path
  \<open>name + ".parquet"\<close> and returns the metadata the closing yields. Chunks and metadata are
  values of the libraries' own types, which the function only hands on.
\<close>

theorem convert_file_result:
  "let chunks = GPUFileIterator G
                  \<lparr>r_path = path, r_engine = ''csv'', r_fs = fs, r_names = cs,
                   r_gpu_memory_frac = fr, r_sep = [CHR 0x09], r_dtypes = dts\<rparr>;
       md = fst (convert_file G sep path name out_dir fr fs cs dts);
       writer = snd (convert_file G sep path name out_dir fr fs cs dts)
   in writer =
        \<lparr>w_path = out_dir @ sep fs @ name @ ''.parquet'', w_compression = None,
         w_tables = chunks, w_closed = True,
         w_metadata_file_path = Some (name @ ''.parquet'')\<rparr> \<and>
      md = close_metadata G writer"
  by (simp add: convert_file_def Let_def writer_close_def ParquetWriter_def fold_write_table)

theorem convert_file_result_witness:
  "convert_file demo_gpu_library (\<lambda>fs. ''/'') ''/data/day_0'' ''day_0'' ''/out'' (15 / 100) ()
     cols dtypes =
   ([10, 20, 30],
    \<lparr>w_path = ''/out/day_0.parquet'', w_compression = None, w_tables = [10, 20, 30],
     w_closed = True, w_metadata_file_path = Some ''day_0.parquet''\<rparr>)"
  using convert_file_result[of demo_gpu_library "''/data/day_0''" "()" cols "15 / 100" dtypes
      "\<lambda>fs. ''/''" "''day_0''" "''/out''"]
  by (simp add: Let_def demo_gpu_library_def prod_eq_iff)

text \<open>
  Claim C7. \<open>_write_metadata\<close> returns \<open>True\<close> for every \<open>md_list\<close>. With an empty list
  the filesystem and the log of library calls are unchanged. With a non-empty list the file
  \<open>path + sep + "_metadata"\<close> is opened for writing and holds the one value written: the
  merge of the list when it has more than one element, its only element otherwise, and then
  the merge is not called. A value is written to that file exactly when the list is not
  empty.
\<close>

theorem write_metadata_result:
  "let res = fst (write_metadata G sep md_list fs path w);
       w' = snd (write_metadata G sep md_list fs path w);
       p = path @ sep fs @ ''_metadata'';
       meta = (if 1 < length md_list then merge_parquet_filemetadata G md_list else hd md_list)
   in res = True \<and>
      (md_list = [] \<longrightarrow> w' = w) \<and>
      (md_list \<noteq> [] \<longrightarrow>
         files w' = (files w)(p \<mapsto> [meta]) \<and>
         log w' = log w @ (if 1 < length md_list then [Merge_call md_list] else [])
                        @ [Open_call p ''wb'', Tofile_call p meta]) \<and>
      (\<forall>m. md_list = [m] \<longrightarrow>
         files w' = (files w)(p \<mapsto> [m]) \<and>
         log w' = log w @ [Open_call p ''wb'', Tofile_call p m]) \<and>
      ((\<exists>m. Tofile_call p m \<in> set (drop (length (log w)) (log w'))) \<longleftrightarrow> md_list \<noteq> [])"
  by (cases md_list)
     (auto simp: write_metadata_def Let_def merge_call_def fs_open_def tofile_def)


theorem write_metadata_result_witness:
  "write_metadata demo_gpu_library (\<lambda>fs. ''/'') [] () ''/out'' demo_world = (True, demo_world) \<and>
   fst (write_metadata demo_gpu_library (\<lambda>fs. ''/'') [[5, 7]] () ''/out'' demo_world) = True \<and>
   files (snd (write_metadata demo_gpu_library (\<lambda>fs. ''/'') [[5, 7]] () ''/out'' demo_world))
     ''/out/_metadata'' = Some [[5, 7]] \<and>
   log (snd (write_metadata demo_gpu_library (\<lambda>fs. ''/'') [[5, 7]] () ''/out'' demo_world)) =
     [Open_call ''/out/_metadata'' ''wb'', Tofile_call ''/out/_metadata'' [5, 7]] \<and>
   log (snd (write_metadata demo_gpu_library (\<lambda>fs. ''/'') [[5, 7], [9]] () ''/out'' demo_world)) =
     [Merge_call [[5, 7], [9]], Open_call ''/out/_metadata'' ''wb'',
      Tofile_call ''/out/_metadata'' [5, 7, 9]]"
proof -
  have l: "log demo_world = []" by (simp add: demo_world_def)
  have m: "merge_parquet_filemetadata demo_gpu_library [[5, 7], [9]] = [5, 7, 9]"
    by (simp add: demo_gpu_library_def)
  show ?thesis
    using write_metadata_result[of demo_gpu_library "\<lambda>fs. ''/''" "[]" "()" "''/out''" demo_world]
      write_metadata_result[of demo_gpu_library "\<lambda>fs. ''/''" "[[5, 7]]" "()" "''/out''" demo_world]
      write_metadata_result[of demo_gpu_library "\<lambda>fs. ''/''" "[[5, 7], [9]]" "()" "''/out''" demo_world]
    by (simp add: Let_def l m prod_eq_iff)
qed

end
